theory Spec2Isabelle
  imports Main "HOL-Library.Word" "HOL-Library.Signed_Division" "HOL-Library.Sublist"
begin

section \<open>Go values\<close>

text \<open>
  A Go \<open>error\<close> is modelled by its message: \<open>None\<close> is \<open>nil\<close>, \<open>Some m\<close> an error whose
  \<open>Error()\<close> is \<open>m\<close>. \<open>uint64\<close> and \<open>int64\<close> are 64-bit words; a conversion between the
  two keeps the bits. \<open>time.Duration\<close> is an \<open>int64\<close> count of nanoseconds.
\<close>

type_synonym error = "string option"
type_synonym uint64 = "64 word"
type_synonym int64 = "64 word"
type_synonym Duration = "64 word"

definition Second :: Duration where
  "Second = 1000000000"

definition Hour :: Duration where
  "Hour = 3600000000000"

text \<open>
  Division of two \<open>int64\<close> values: Go truncates the quotient towards zero. The divisor is
  a non-zero constant wherever the source divides.
\<close>

definition int64_div :: "int64 \<Rightarrow> int64 \<Rightarrow> int64" where
  "int64_div a b = word_of_int (sint a sdiv sint b)"

definition quote :: string where
  "quote = [CHR 0x27]"

section \<open>dbhelpers: finishing a transaction\<close>

text \<open>
  \<open>FinishTx\<close> and \<open>FinishTxX\<close> receive a transaction pointer and a pointer to the commit
  flag. The model returns the call made on the transaction. A nil flag pointer with a
  non-nil transaction is dereferenced by the source, which panics.
\<close>

datatype TxCall = NoTxCall | TxRollback | TxCommit | NilDereference

definition FinishTx :: "'tx option \<Rightarrow> bool option \<Rightarrow> TxCall" where
  "FinishTx tx commit =
     (case tx of
        None \<Rightarrow> NoTxCall
      | Some t \<Rightarrow>
          (case commit of
             None \<Rightarrow> NilDereference
           | Some c \<Rightarrow> if \<not> c then TxRollback else TxCommit))"

definition FinishTxX :: "'tx option \<Rightarrow> bool option \<Rightarrow> TxCall" where
  "FinishTxX tx commit =
     (case tx of
        None \<Rightarrow> NoTxCall
      | Some t \<Rightarrow>
          (case commit of
             None \<Rightarrow> NilDereference
           | Some c \<Rightarrow> if \<not> c then TxRollback else TxCommit))"

section \<open>dbhelpers: single-row reads\<close>

text \<open>
  \<open>tx.QueryRow(q, args).Scan(dest)\<close> either fills the destinations from the first row,
  or returns the sentinel \<open>sql.ErrNoRows\<close>, or returns another error. The transaction is
  modelled by what each of the five statements of the helpers yields for its arguments.
\<close>

datatype 'a QueryRowScan = Scanned 'a | ErrNoRows | OtherError string

record Tx =
  select_parameter_value :: "string \<Rightarrow> string \<Rightarrow> string QueryRowScan"
  select_ds_xml_id :: "int \<Rightarrow> string QueryRowScan"
  select_ds_xml_id_cdn_name :: "int \<Rightarrow> (string \<times> string) QueryRowScan"
  select_profile_name :: "int \<Rightarrow> string QueryRowScan"
  select_profile_id :: "string \<Rightarrow> int QueryRowScan"

definition GetParam :: "Tx \<Rightarrow> string \<Rightarrow> string \<Rightarrow> string \<times> bool \<times> error" where
  "GetParam tx name configFile =
     (case select_parameter_value tx name configFile of
        ErrNoRows \<Rightarrow> ('''', False, None)
      | OtherError err \<Rightarrow>
          ('''', False, Some (''Error querying global paramter '' @ quote @ name @ quote @ '': '' @ err))
      | Scanned val \<Rightarrow> (val, True, None))"

definition GetGlobalParam :: "Tx \<Rightarrow> string \<Rightarrow> string \<times> bool \<times> error" where
  "GetGlobalParam tx name = GetParam tx name ''global''"

definition GetDSNameFromID :: "Tx \<Rightarrow> int \<Rightarrow> string \<times> bool \<times> error" where
  "GetDSNameFromID tx ident =
     (case select_ds_xml_id tx ident of
        ErrNoRows \<Rightarrow> ('''', False, None)
      | OtherError err \<Rightarrow> ('''', False, Some (''querying delivery service name: '' @ err))
      | Scanned name \<Rightarrow> (name, True, None))"

definition GetDSNameAndCDNFromID :: "Tx \<Rightarrow> int \<Rightarrow> string \<times> string \<times> bool \<times> error" where
  "GetDSNameAndCDNFromID tx ident =
     (case select_ds_xml_id_cdn_name tx ident of
        ErrNoRows \<Rightarrow> ('''', '''', False, None)
      | OtherError err \<Rightarrow> ('''', '''', False, Some (''querying delivery service name: '' @ err))
      | Scanned (name, cdn) \<Rightarrow> (name, cdn, True, None))"

definition GetProfileNameFromID :: "int \<Rightarrow> Tx \<Rightarrow> string \<times> bool \<times> error" where
  "GetProfileNameFromID ident tx =
     (case select_profile_name tx ident of
        ErrNoRows \<Rightarrow> ('''', False, None)
      | OtherError err \<Rightarrow> ('''', False, Some (''querying profile name from id: '' @ err))
      | Scanned name \<Rightarrow> (name, True, None))"

definition GetProfileIDFromName :: "string \<Rightarrow> Tx \<Rightarrow> int \<times> bool \<times> error" where
  "GetProfileIDFromName name tx =
     (case select_profile_id tx name of
        ErrNoRows \<Rightarrow> (0, False, None)
      | OtherError err \<Rightarrow> (0, False, Some (''querying profile id from name: '' @ err))
      | Scanned ident \<Rightarrow> (ident, True, None))"

section \<open>DNSSEC key data\<close>

text \<open>
  The declarations of \<open>tc.DNSSECKey\<close>, \<open>tc.DNSSECKeySet\<close> and \<open>tc.DNSSECKeys\<close> are not
  among the sources and follow the spec's data model. The key record has its fields
  (inception, expiration, name, ttl-seconds, status, public, private, ds-record) under the
  names the rotation uses for the three it assigns. The key set lists its ZSK field first,
  as the positional literal \<open>tc.DNSSECKeySet{oldKeyCDN.ZSK, oldKeyCDN.KSK}\<close> of the rotation
  requires. The bundle is a Go map from zone name to key set.
\<close>

text \<open>
  Modelled from the spec: the DS record of a KSK (algorithm, digest type, digest).
\<close>

record DNSSECKeyDSRecord =
  Algorithm :: int
  DigestType :: int
  Digest :: string

text \<open>
  Modelled from the spec: \<open>tc.DNSSECKey\<close>, the key record of the data model. The unix
  times are \<open>int64\<close>, as the rotation assigns its \<open>int64\<close> effective date to the expiration.
\<close>

record DNSSECKey =
  InceptionDateUnix :: int64
  ExpirationDateUnix :: int64
  KeyName :: string
  TTLSeconds :: uint64
  Status :: string
  Public :: string
  Private :: string
  DSRecord :: "DNSSECKeyDSRecord option"

text \<open>
  Modelled from the spec: \<open>tc.DNSSECKeySet\<close>, the ordered KSK and ZSK lists of a zone, and
  \<open>tc.DNSSECKeys\<close>, the bundle.
\<close>

record DNSSECKeySet =
  ZSK :: "DNSSECKey list"
  KSK :: "DNSSECKey list"

type_synonym DNSSECKeys = "string \<rightharpoonup> DNSSECKeySet"

definition CDNDNSSECKeyType :: string where
  "CDNDNSSECKeyType = ''dnssec''"

definition DNSSECStatusExisting :: string where
  "DNSSECStatusExisting = ''existing''"

text \<open>
  Modelled from the spec: the status of a freshly minted key, \<open>new\<close>; the constant is not
  among the sources.
\<close>

definition DNSSECStatusNew :: string where
  "DNSSECStatusNew = ''new''"

section \<open>Delivery services of a CDN\<close>

record 't CDNDS =
  Name :: string
  Protocol :: "int option"
  Type :: 't
  RoutingName :: string

text \<open>
  A row of the statement of \<open>getCDNDeliveryServices\<close>, with its five selected columns.
\<close>

record CDNDSRow =
  xml_id :: string
  protocol :: "int option"
  type_name :: string
  routing_name :: string
  cdn_domain :: string

text \<open>
  The collaborators of the rotation whose code is not among the sources are parameters:
  the two key-store calls of \<open>riaksvc\<close> (the store \<open>'kv\<close> is read by the first and
  replaced by the second), \<open>tx.Query\<close> with the rows that \<open>rows.Next\<close> delivers and the
  error of \<open>rows.Scan\<close> for a row, the delivery-service type \<open>'t\<close> of \<open>tc\<close> with its
  parser and predicates, and the match-list query, the example-URL builder and the key
  factory of package \<open>deliveryservice\<close>. They stand for the calls on the handler's
  transaction and configuration, which are therefore not passed along. The key factory is
  a function of its arguments: it has no access to the store.
\<close>

record ('kv, 't, 'ml) env =
  riaksvc_GetDNSSECKeys :: "string \<Rightarrow> 'kv \<Rightarrow> DNSSECKeys \<times> bool \<times> error"
  riaksvc_PutDNSSECKeys :: "DNSSECKeys \<Rightarrow> string \<Rightarrow> 'kv \<Rightarrow> error \<times> 'kv"
  tx_Query :: "string \<Rightarrow> string + CDNDSRow list"
  rows_Scan :: "CDNDSRow \<Rightarrow> error"
  tc_DSTypeFromString :: "string \<Rightarrow> 't"
  tc_DSTypeInvalid :: "'t"
  IsHTTP :: "'t \<Rightarrow> bool"
  IsDNS :: "'t \<Rightarrow> bool"
  deliveryservice_GetDeliveryServicesMatchLists :: "string list \<Rightarrow> (string \<rightharpoonup> 'ml) \<times> error"
  deliveryservice_MakeExampleURLs :: "int option \<Rightarrow> 't \<Rightarrow> string \<Rightarrow> 'ml \<Rightarrow> string \<Rightarrow> string list"
  deliveryservice_CreateDNSSECKeys ::
    "string \<Rightarrow> string list \<Rightarrow> DNSSECKeySet \<Rightarrow> Duration \<Rightarrow> Duration \<Rightarrow> Duration \<Rightarrow> bool
       \<Rightarrow> string + DNSSECKeySet"

text \<open>
  The loop of \<open>getCDNDeliveryServices\<close> over the rows. The source hands \<open>dsTypeStr\<close> to
  \<open>rows.Scan\<close> by value, not by address, so the variable still holds the empty string
  when \<open>tc.DSTypeFromString\<close> reads it, whatever the row's type column is. A successful
  scan stores the other four columns through their pointers.
\<close>

fun scanRows ::
  "('kv, 't, 'ml) env \<Rightarrow> CDNDSRow list \<Rightarrow> 't CDNDS list \<Rightarrow> string
     \<Rightarrow> string + ('t CDNDS list \<times> string)" where
  "scanRows e [] dses cdnDomain = Inr (dses, cdnDomain)"
| "scanRows e (row # rows) dses cdnDomain =
     (let dsTypeStr = '''' in
      case rows_Scan e row of
        Some err \<Rightarrow> Inl (''scanning cdn delivery services: '' @ err)
      | None \<Rightarrow>
          (let dsType = tc_DSTypeFromString e dsTypeStr in
           if dsType = tc_DSTypeInvalid e
           then Inl (''got invalid delivery service type '' @ quote @ dsTypeStr @ quote)
           else scanRows e rows
                  (dses @ [\<lparr>Name = xml_id row, Protocol = protocol row, Type = dsType,
                            RoutingName = routing_name row\<rparr>])
                  (cdn_domain row)))"

definition getCDNDeliveryServices ::
  "('kv, 't, 'ml) env \<Rightarrow> string \<Rightarrow> string + ('t CDNDS list \<times> string)" where
  "getCDNDeliveryServices e cdn =
     (case tx_Query e cdn of
        Inl err \<Rightarrow> Inl (''getting cdn delivery services: '' @ err)
      | Inr rows \<Rightarrow> scanRows e rows [] '''')"

section \<open>The rotation\<close>

text \<open>
  Lines 88 to 91 (and 95 to 98) of \<open>generateStoreDNSSECKeys\<close>: the copy of the head key
  with its three assignments. \<open>ttl\<close> is the duration computed from the requested seconds.
\<close>

definition demoted :: "DNSSECKey \<Rightarrow> Duration \<Rightarrow> int64 \<Rightarrow> DNSSECKey" where
  "demoted key ttl effectiveDateUnix =
     key\<lparr>Status := DNSSECStatusExisting,
         TTLSeconds := int64_div ttl Second,
         ExpirationDateUnix := effectiveDateUnix\<rparr>"

text \<open>
  Lines 86 to 101: the key set stored under the CDN name in the new bundle. A missing map
  entry reads as the zero key set and \<open>oldKeyCDNExists = false\<close>.
\<close>

definition cdnKeySet :: "DNSSECKeys \<Rightarrow> string \<Rightarrow> Duration \<Rightarrow> int64 \<Rightarrow> DNSSECKeySet" where
  "cdnKeySet oldKeys cdnName ttl effectiveDateUnix =
     (let (oldKeyCDN, oldKeyCDNExists) =
            (case oldKeys cdnName of
               None \<Rightarrow> (\<lparr>ZSK = [], KSK = []\<rparr>, False)
             | Some ks \<Rightarrow> (ks, True));
          ksks = (if oldKeyCDNExists \<and> length (KSK oldKeyCDN) > 0
                  then KSK oldKeyCDN @ [demoted (KSK oldKeyCDN ! 0) ttl effectiveDateUnix]
                  else KSK oldKeyCDN);
          zsks = (if oldKeyCDNExists \<and> length (ZSK oldKeyCDN) > 0
                  then ZSK oldKeyCDN @ [demoted (ZSK oldKeyCDN ! 0) ttl effectiveDateUnix]
                  else ZSK oldKeyCDN)
      in \<lparr>ZSK = zsks, KSK = ksks\<rparr>)"

text \<open>
  Lines 119 to 137: the loop over the delivery services, which leaves at the first error.
\<close>

fun dsKeysLoop ::
  "('kv, 't, 'ml) env \<Rightarrow> DNSSECKeySet \<Rightarrow> Duration \<Rightarrow> Duration \<Rightarrow> Duration
     \<Rightarrow> (string \<rightharpoonup> 'ml) \<Rightarrow> string \<Rightarrow> 't CDNDS list \<Rightarrow> DNSSECKeys \<Rightarrow> string + DNSSECKeys" where
  "dsKeysLoop e cdnKeys kExp zExp ttl matchLists cdnDomain [] newKeys = Inr newKeys"
| "dsKeysLoop e cdnKeys kExp zExp ttl matchLists cdnDomain (ds # dses) newKeys =
     (if \<not> IsHTTP e (Type ds) \<and> \<not> IsDNS e (Type ds)
      then dsKeysLoop e cdnKeys kExp zExp ttl matchLists cdnDomain dses newKeys
      else
        case matchLists (Name ds) of
          None \<Rightarrow> Inl (''no regex match list found for delivery service '' @ quote @ Name ds)
        | Some matchlist \<Rightarrow>
            (let exampleURLs = deliveryservice_MakeExampleURLs e (Protocol ds) (Type ds)
                                 (RoutingName ds) matchlist cdnDomain;
                 overrideTTL = True
             in case deliveryservice_CreateDNSSECKeys e (Name ds) exampleURLs cdnKeys
                       kExp zExp ttl overrideTTL of
                  Inl err \<Rightarrow> Inl (''creating delivery service DNSSEC keys: '' @ err)
                | Inr dsKeys \<Rightarrow>
                    dsKeysLoop e cdnKeys kExp zExp ttl matchLists cdnDomain dses
                      (newKeys(Name ds \<mapsto> dsKeys))))"

text \<open>
  Lines 75 to 137 of \<open>generateStoreDNSSECKeys\<close>: everything before the write. The result
  is the error returned, or the bundle \<open>newKeys\<close> that line 138 hands to the store.
\<close>

definition newDNSSECKeys ::
  "('kv, 't, 'ml) env \<Rightarrow> 'kv \<Rightarrow> string \<Rightarrow> uint64 \<Rightarrow> uint64 \<Rightarrow> uint64 \<Rightarrow> int64
     \<Rightarrow> string + DNSSECKeys" where
  "newDNSSECKeys e kv cdnName ttlSeconds kExpDays zExpDays effectiveDateUnix =
     (let zExp = zExpDays * Hour * 24;
          kExp = kExpDays * Hour * 24;
          ttl = ttlSeconds * Second
      in case riaksvc_GetDNSSECKeys e cdnName kv of
           (oldKeys, oldKeysExist, Some err) \<Rightarrow> Inl (''getting old dnssec keys: '' @ err)
         | (oldKeys, oldKeysExist, None) \<Rightarrow>
             if \<not> oldKeysExist
             then Inl ''getting DNSSec keys from Riak: no DNSSec keys for CDN''
             else
               (let newKeys = Map.empty(cdnName \<mapsto> cdnKeySet oldKeys cdnName ttl effectiveDateUnix);
                    cdnKeys = cdnKeySet oldKeys cdnName ttl effectiveDateUnix
                in case getCDNDeliveryServices e cdnName of
                     Inl err \<Rightarrow> Inl (''getting cdn delivery services: '' @ err)
                   | Inr (dses, cdnDomain) \<Rightarrow>
                       (let dsNames = map Name dses
                        in case deliveryservice_GetDeliveryServicesMatchLists e dsNames of
                             (matchLists, Some err) \<Rightarrow>
                               Inl (''getting delivery service matchlists: '' @ err)
                           | (matchLists, None) \<Rightarrow>
                               dsKeysLoop e cdnKeys kExp zExp ttl matchLists cdnDomain dses
                                 newKeys)))"

text \<open>
  \<open>generateStoreDNSSECKeys\<close>: the returned error and the store afterwards. The store is
  touched by \<open>riaksvc.PutDNSSECKeys\<close> alone, at line 138.
\<close>

definition generateStoreDNSSECKeys ::
  "('kv, 't, 'ml) env \<Rightarrow> 'kv \<Rightarrow> string \<Rightarrow> uint64 \<Rightarrow> uint64 \<Rightarrow> uint64 \<Rightarrow> int64
     \<Rightarrow> error \<times> 'kv" where
  "generateStoreDNSSECKeys e kv cdnName ttlSeconds kExpDays zExpDays effectiveDateUnix =
     (case newDNSSECKeys e kv cdnName ttlSeconds kExpDays zExpDays effectiveDateUnix of
        Inl err \<Rightarrow> (Some err, kv)
      | Inr newKeys \<Rightarrow>
          (case riaksvc_PutDNSSECKeys e newKeys cdnName kv of
             (Some err, kv') \<Rightarrow> (Some (''putting Riak DNSSEC CDN keys: '' @ err), kv')
           | (None, kv') \<Rightarrow> (None, kv')))"

section \<open>The two handlers\<close>

text \<open>
  What a handler hands to the response writer: \<open>api.HandleErr\<close> with its status code, user
  error and system error, or \<open>api.WriteResp\<close> with its message, which answers 200. A nil
  pointer dereference ends the handler in a panic; its deferred calls still run.
\<close>

datatype response = HandleErr int error error | WriteResp string | Panic

text \<open>
  Modelled from the spec: \<open>api.WriteResp\<close> is not among the sources; the spec has both
  handlers respond 200 with the success message.
\<close>

fun statusCode :: "response \<Rightarrow> int option" where
  "statusCode (HandleErr code userErr sysErr) = Some code"
| "statusCode (WriteResp msg) = Some 200"
| "statusCode Panic = None"

text \<open>
  The part of \<open>api.APIInfo\<close> the handlers read: the transaction pointer, the pointer to
  the commit flag (with the flag's value) and the request parameters.
\<close>

record 'tx APIInfo =
  InfoTx :: "'tx option"
  CommitTx :: "bool option"
  Params :: "string \<rightharpoonup> string"

text \<open>
  Modelled from the spec: \<open>tc.CDNDNSSECGenerateReq\<close>, the body of a generate request. The
  handler dereferences each field, so each is a pointer.
\<close>

record CDNDNSSECGenerateReq =
  Key :: "string option"
  TTL :: "uint64 option"
  KSKExpirationDays :: "uint64 option"
  ZSKExpirationDays :: "uint64 option"
  EffectiveDateUnix :: "int64 option"

text \<open>
  The calls of the handlers into code that is not among the sources: \<open>api.NewInfo\<close> (with
  the required parameter names), \<open>api.Parse\<close> of the request body, the clock, and the two
  calls that obtain and start the Riak cluster.
\<close>

record ('req, 'tx) api =
  api_NewInfo :: "'req \<Rightarrow> string list \<Rightarrow> 'tx APIInfo \<times> error \<times> error \<times> int"
  api_Parse :: "'req \<Rightarrow> string + CDNDNSSECGenerateReq"
  time_Now_Unix :: int64
  riaksvc_GetRiakClusterTx :: error
  riakCluster_Start :: error

text \<open>
  Modelled from the spec: \<open>inf.Close\<close> is not among the sources. The spec has the handler
  release its transaction on every exit, committing when the commit flag is set and rolling
  back otherwise, which is \<open>FinishTxX\<close> on the handler's transaction and flag.
\<close>

definition Close :: "'tx APIInfo \<Rightarrow> bool option \<Rightarrow> TxCall" where
  "Close info commitTx = FinishTxX (InfoTx info) commitTx"

text \<open>
  The outcome of a handler: its response, the call made on the transaction by the deferred
  \<open>inf.Close\<close> (none when \<open>api.NewInfo\<close> failed, before the \<open>defer\<close>), and the store.
\<close>

record 'kv outcome =
  resp :: response
  finish :: TxCall
  store :: 'kv

text \<open>
  \<open>CreateDNSSECKeys\<close> of package \<open>cdn\<close>. The triple computed for the body is the response,
  the commit flag as the deferred \<open>inf.Close\<close> finds it, and the store.
\<close>

definition CreateDNSSECKeys ::
  "('req, 'tx) api \<Rightarrow> ('kv, 't, 'ml) env \<Rightarrow> 'req \<Rightarrow> 'kv \<Rightarrow> 'kv outcome" where
  "CreateDNSSECKeys a e r kv =
     (case api_NewInfo a r [] of
        (info, userErr, sysErr, errCode) \<Rightarrow>
          if userErr \<noteq> None \<or> sysErr \<noteq> None
          then \<lparr>resp = HandleErr errCode userErr sysErr, finish = NoTxCall, store = kv\<rparr>
          else
            (let (response, commitTx, kv') =
               (case InfoTx info of
                  None \<Rightarrow> (Panic, CommitTx info, kv)
                | Some tx \<Rightarrow>
                    (case api_Parse a r of
                       Inl err \<Rightarrow>
                         (HandleErr 400 (Some (''parsing request: '' @ err)) None, CommitTx info, kv)
                     | Inr req \<Rightarrow>
                         (let effectiveDateUnix =
                                (case EffectiveDateUnix req of
                                   None \<Rightarrow> time_Now_Unix a
                                 | Some d \<Rightarrow> d)
                          in case (Key req, TTL req, KSKExpirationDays req, ZSKExpirationDays req) of
                               (Some cdnName, Some ttl, Some kExpDays, Some zExpDays) \<Rightarrow>
                                 (case generateStoreDNSSECKeys e kv cdnName ttl kExpDays zExpDays
                                         effectiveDateUnix of
                                    (Some err, kv') \<Rightarrow>
                                      (HandleErr 500 None
                                         (Some (''generating and storing DNSSEC CDN keys: '' @ err)),
                                       CommitTx info, kv')
                                  | (None, kv') \<Rightarrow>
                                      (case CommitTx info of
                                         None \<Rightarrow> (Panic, None, kv')
                                       | Some c \<Rightarrow>
                                           (WriteResp (''Successfully created dnssec keys for '' @ cdnName),
                                            Some True, kv')))
                             | _ \<Rightarrow> (Panic, CommitTx info, kv))))
             in \<lparr>resp = response, finish = Close info commitTx, store = kv'\<rparr>))"

section \<open>The key store\<close>

text \<open>
  Package \<open>riaksvc\<close> is not among the sources; the store follows the spec's key store. It
  is a remote cluster holding one value per bucket and key; a CDN's bundle lives in bucket
  \<open>dnssec\<close> under the CDN name, and reads and writes are whole-bundle. A call fails with
  \<open>StoreUnavailable\<close> when the cluster cannot be reached and then changes nothing.
\<close>

text \<open>
  Modelled from the spec: the cluster, with its stored values and whether it can be reached.
\<close>

record RiakCluster =
  objects :: "string \<times> string \<rightharpoonup> DNSSECKeys"
  reachable :: bool

text \<open>
  Modelled from the spec: \<open>riaksvc.GetDNSSECKeys\<close>, the key store's \<open>get\<close>, is not among
  the sources: the bundle of the CDN with found = true, or found = false when none is
  stored.
\<close>

definition GetDNSSECKeys :: "string \<Rightarrow> RiakCluster \<Rightarrow> DNSSECKeys \<times> bool \<times> error" where
  "GetDNSSECKeys cdnName cluster =
     (if \<not> reachable cluster then (Map.empty, False, Some ''StoreUnavailable'')
      else case objects cluster (CDNDNSSECKeyType, cdnName) of
             None \<Rightarrow> (Map.empty, False, None)
           | Some keys \<Rightarrow> (keys, True, None))"

text \<open>
  Modelled from the spec: \<open>riaksvc.PutDNSSECKeys\<close>, the key store's \<open>put\<close>, is not among
  the sources: the whole bundle replaces what is stored for the CDN.
\<close>

definition PutDNSSECKeys :: "DNSSECKeys \<Rightarrow> string \<Rightarrow> RiakCluster \<Rightarrow> error \<times> RiakCluster" where
  "PutDNSSECKeys keys cdnName cluster =
     (if \<not> reachable cluster then (Some ''StoreUnavailable'', cluster)
      else (None, cluster\<lparr>objects := (objects cluster)((CDNDNSSECKeyType, cdnName) \<mapsto> keys)\<rparr>))"

text \<open>
  Modelled from the spec: \<open>riaksvc.DeleteObject\<close>, the key store's \<open>delete\<close>, is not among
  the sources: it removes the value under the bucket and key and succeeds whether or not
  one was stored.
\<close>

definition DeleteObject :: "string \<Rightarrow> string \<Rightarrow> RiakCluster \<Rightarrow> error \<times> RiakCluster" where
  "DeleteObject key bucket cluster =
     (if \<not> reachable cluster then (Some ''StoreUnavailable'', cluster)
      else (None, cluster\<lparr>objects := (objects cluster)((bucket, key) := None)\<rparr>))"

text \<open>
  \<open>DeleteDNSSECKeys\<close> of package \<open>cdn\<close>. A missing \<open>name\<close> parameter reads as the empty
  string. The change-log insert and the stopping of the cluster session bear on neither
  the response, the commit flag nor the stored objects, and are left out.
\<close>

definition DeleteDNSSECKeys ::
  "('req, 'tx) api \<Rightarrow> 'req \<Rightarrow> RiakCluster \<Rightarrow> RiakCluster outcome" where
  "DeleteDNSSECKeys a r cluster =
     (case api_NewInfo a r [''name''] of
        (info, userErr, sysErr, errCode) \<Rightarrow>
          if userErr \<noteq> None \<or> sysErr \<noteq> None
          then \<lparr>resp = HandleErr errCode userErr sysErr, finish = NoTxCall, store = cluster\<rparr>
          else
            (let key = (case Params info ''name'' of None \<Rightarrow> '''' | Some v \<Rightarrow> v);
                 (response, commitTx, cluster') =
               (case InfoTx info of
                  None \<Rightarrow> (Panic, CommitTx info, cluster)
                | Some tx \<Rightarrow>
                    (case riaksvc_GetRiakClusterTx a of
                       Some err \<Rightarrow>
                         (HandleErr 500 None (Some (''getting riak cluster: '' @ err)),
                          CommitTx info, cluster)
                     | None \<Rightarrow>
                         (case riakCluster_Start a of
                            Some err \<Rightarrow>
                              (HandleErr 500 None (Some (''starting riak cluster: '' @ err)),
                               CommitTx info, cluster)
                          | None \<Rightarrow>
                              (case DeleteObject key CDNDNSSECKeyType cluster of
                                 (Some err, cluster') \<Rightarrow>
                                   (HandleErr 500 None
                                      (Some (''deleting cdn dnssec keys: '' @ err)),
                                    CommitTx info, cluster')
                               | (None, cluster') \<Rightarrow>
                                   (case CommitTx info of
                                      None \<Rightarrow> (Panic, None, cluster')
                                    | Some c \<Rightarrow>
                                        (WriteResp (''Successfully deleted '' @ CDNDNSSECKeyType
                                                      @ '' for '' @ key),
                                         Some True, cluster'))))))
             in \<lparr>resp = response, finish = Close info commitTx, store = cluster'\<rparr>))"

section \<open>A concrete CDN\<close>

text \<open>
  The setting of the scenarios: a reachable cluster, a database answering the CDN query
  with the given rows, every scan succeeding, a type parser that answers the given type
  for every string (the rows of a scenario carry that type's name in their type column),
  the given match lists, one example URL per match-list entry, and a key factory that
  mints one new KSK and one new ZSK for the zone.
\<close>

definition mkKey :: "string \<Rightarrow> string \<Rightarrow> DNSSECKey" where
  "mkKey zone status =
     \<lparr>InceptionDateUnix = 1000, ExpirationDateUnix = 2000, KeyName = zone, TTLSeconds = 60,
      Status = status, Public = ''public'', Private = ''private'', DSRecord = None\<rparr>"

definition cdnA :: "string \<Rightarrow> CDNDSRow list \<Rightarrow> (string \<rightharpoonup> string list)
     \<Rightarrow> (RiakCluster, string, string list) env" where
  "cdnA t rows matchLists =
     \<lparr>riaksvc_GetDNSSECKeys = GetDNSSECKeys,
      riaksvc_PutDNSSECKeys = PutDNSSECKeys,
      tx_Query = (\<lambda>cdn. Inr rows),
      rows_Scan = (\<lambda>row. None),
      tc_DSTypeFromString = (\<lambda>s. t),
      tc_DSTypeInvalid = '''',
      IsHTTP = (\<lambda>t. t = ''HTTP''),
      IsDNS = (\<lambda>t. t = ''DNS''),
      deliveryservice_GetDeliveryServicesMatchLists = (\<lambda>dsNames. (matchLists, None)),
      deliveryservice_MakeExampleURLs =
        (\<lambda>protocol t routingName matchlist cdnDomain.
           map (\<lambda>pattern. ''http://'' @ routingName @ pattern @ cdnDomain) matchlist),
      deliveryservice_CreateDNSSECKeys =
        (\<lambda>name exampleURLs cdnKeys kExp zExp ttl overrideTTL.
           Inr \<lparr>ZSK = [mkKey name DNSSECStatusNew], KSK = [mkKey name DNSSECStatusNew]\<rparr>)\<rparr>"

definition row :: "string \<Rightarrow> string \<Rightarrow> CDNDSRow" where
  "row name typeName =
     \<lparr>xml_id = name, protocol = Some 0, type_name = typeName, routing_name = ''cdn'',
      cdn_domain = ''example.net''\<rparr>"

definition warmBundle :: DNSSECKeys where
  "warmBundle =
     Map.empty(''cdn-a'' \<mapsto> \<lparr>ZSK = [mkKey ''cdn-a'' ''new''], KSK = [mkKey ''cdn-a'' ''new'']\<rparr>)"

definition warmCluster :: RiakCluster where
  "warmCluster =
     \<lparr>objects = Map.empty((''dnssec'', ''cdn-a'') \<mapsto> warmBundle), reachable = True\<rparr>"

definition emptyCluster :: RiakCluster where
  "emptyCluster = \<lparr>objects = Map.empty, reachable = True\<rparr>"

text \<open>A cluster whose bundle for \<open>cdn-a\<close> has no entry under the CDN name itself.\<close>

definition apexlessBundle :: DNSSECKeys where
  "apexlessBundle =
     Map.empty(''d1'' \<mapsto> \<lparr>ZSK = [mkKey ''d1'' ''new''], KSK = [mkKey ''d1'' ''new'']\<rparr>)"

definition apexlessCluster :: RiakCluster where
  "apexlessCluster =
     \<lparr>objects = Map.empty((''dnssec'', ''cdn-a'') \<mapsto> apexlessBundle), reachable = True\<rparr>"

definition okInfo :: "string \<Rightarrow> nat APIInfo" where
  "okInfo name =
     \<lparr>InfoTx = Some 0, CommitTx = Some False, Params = Map.empty(''name'' \<mapsto> name)\<rparr>"

definition okApi :: "CDNDNSSECGenerateReq \<Rightarrow> (string, nat) api" where
  "okApi req =
     \<lparr>api_NewInfo = (\<lambda>r required. (okInfo r, None, None, 200)),
      api_Parse = (\<lambda>r. Inr req),
      time_Now_Unix = 1500,
      riaksvc_GetRiakClusterTx = None,
      riakCluster_Start = None\<rparr>"

definition generateReq :: CDNDNSSECGenerateReq where
  "generateReq =
     \<lparr>Key = Some ''cdn-a'', TTL = Some 3600, KSKExpirationDays = Some 365,
      ZSKExpirationDays = Some 30, EffectiveDateUnix = None\<rparr>"

definition exampleTx :: Tx where
  "exampleTx =
     \<lparr>select_parameter_value = (\<lambda>name configFile. ErrNoRows),
      select_ds_xml_id = (\<lambda>i. if i = 1 then Scanned ''d1'' else ErrNoRows),
      select_ds_xml_id_cdn_name = (\<lambda>i. if i = 1 then Scanned (''d1'', ''cdn-a'') else ErrNoRows),
      select_profile_name = (\<lambda>i. if i = 1 then Scanned ''edge'' else OtherError ''connection lost''),
      select_profile_id = (\<lambda>name. if name = ''edge'' then Scanned 1 else ErrNoRows)\<rparr>"

section \<open>Properties of key sets and of the stored bundle\<close>

text \<open>
  A list of keys whose record at index 0 exists and has status \<open>new\<close>; a key set has
  this shape when both its KSK list and its ZSK list do.
\<close>

definition headIsNew :: "DNSSECKey list \<Rightarrow> bool" where
  "headIsNew keys = (case keys of [] \<Rightarrow> False | key # rest \<Rightarrow> Status key = DNSSECStatusNew)"

definition headsAreNew :: "DNSSECKeySet \<Rightarrow> bool" where
  "headsAreNew ks = (headIsNew (KSK ks) \<and> headIsNew (ZSK ks))"

text \<open>The bundle the cluster holds for a CDN, if any.\<close>

definition storedBundle :: "RiakCluster \<Rightarrow> string \<Rightarrow> DNSSECKeys option" where
  "storedBundle cluster cdnName = objects cluster (CDNDNSSECKeyType, cdnName)"

section \<open>Auxiliary facts\<close>

lemmas model_defs =
  generateStoreDNSSECKeys_def newDNSSECKeys_def getCDNDeliveryServices_def cdnKeySet_def
  demoted_def GetDNSSECKeys_def PutDNSSECKeys_def DeleteObject_def CDNDNSSECKeyType_def
  DNSSECStatusExisting_def DNSSECStatusNew_def cdnA_def row_def mkKey_def warmCluster_def
  emptyCluster_def apexlessCluster_def warmBundle_def apexlessBundle_def okInfo_def okApi_def generateReq_def
  headIsNew_def headsAreNew_def storedBundle_def quote_def Let_def

subsection \<open>Seconds to duration and back\<close>

text \<open>
  \<open>uint64(ttl / time.Second)\<close> for \<open>ttl = time.Duration(s) * time.Second\<close> is \<open>s\<close> again
  as long as the product fits the 63 value bits of a duration.
\<close>

lemma ttl_roundtrip:
  assumes "unat (s :: 64 word) \<le> 9223372036"
  shows "int64_div (s * Second) Second = s"
proof -
  have u: "uint s \<le> 9223372036"
    using assms by (metis int_ops(3) of_nat_numeral uint_nat zle_int)
  have nn: "0 \<le> uint s" by simp
  have m: "uint (s * Second) = uint s * 1000000000"
  proof -
    have "uint (s * Second) = (uint s * 1000000000) mod 2 ^ 64"
      by (simp add: uint_word_ariths Second_def)
    also have "\<dots> = uint s * 1000000000"
      using u nn by (intro mod_pos_pos_trivial) auto
    finally show ?thesis .
  qed
  have s1: "sint (s * Second) = uint s * 1000000000"
  proof -
    have "sint (s * Second) = signed_take_bit 63 (uint (s * Second))"
      by (simp add: sint_uint)
    also have "\<dots> = uint s * 1000000000"
    proof -
      have "- (2 ^ 63) \<le> x * 1000000000 \<and> x * 1000000000 < 2 ^ 63"
        if "0 \<le> x" "x \<le> 9223372036" for x :: int
        using that by simp
      from this [OF nn u] show ?thesis
        unfolding m by (intro signed_take_bit_int_eq_self) simp_all
    qed
    finally show ?thesis .
  qed
  have s2: "sint Second = 1000000000" by (simp add: Second_def)
  have "x * 1000000000 sdiv 1000000000 = x" if "0 \<le> x" for x :: int
    using that by (cases "x = 0") (simp_all add: signed_divide_int_def sgn_if)
  from this [OF nn] have "sint (s * Second) sdiv sint Second = uint s"
    unfolding s1 s2 .
  then show ?thesis by (simp add: int64_div_def)
qed

subsection \<open>The loop over the delivery services\<close>

lemma loop_covers_eligible:
  "dsKeysLoop e cdnKeys kExp zExp ttl matchLists cdnDomain dses newKeys = Inr b \<Longrightarrow>
   newKeys n \<noteq> None \<or> (\<exists>ds \<in> set dses. (IsHTTP e (Type ds) \<or> IsDNS e (Type ds)) \<and> Name ds = n) \<Longrightarrow>
   b n \<noteq> None"
proof (induction dses arbitrary: newKeys)
  case Nil
  then show ?case by simp
next
  case (Cons ds dses)
  show ?case
  proof (cases "\<not> IsHTTP e (Type ds) \<and> \<not> IsDNS e (Type ds)")
    case True
    with Cons.prems have "dsKeysLoop e cdnKeys kExp zExp ttl matchLists cdnDomain dses newKeys = Inr b"
      by simp
    from Cons.IH [OF this] Cons.prems(2) True show ?thesis by auto
  next
    case False
    with Cons.prems obtain dsKeys where
      "dsKeysLoop e cdnKeys kExp zExp ttl matchLists cdnDomain dses (newKeys(Name ds \<mapsto> dsKeys)) = Inr b"
      by (auto simp: Let_def split: option.splits sum.splits)
    from Cons.IH [OF this] Cons.prems(2) show ?thesis by auto
  qed
qed

lemma loop_values:
  "dsKeysLoop e cdnKeys kExp zExp ttl matchLists cdnDomain dses newKeys = Inr b \<Longrightarrow>
   b n = Some ks \<Longrightarrow>
   newKeys n = Some ks \<or>
   (\<exists>urls. deliveryservice_CreateDNSSECKeys e n urls cdnKeys kExp zExp ttl True = Inr ks)"
proof (induction dses arbitrary: newKeys)
  case Nil
  then show ?case by simp
next
  case (Cons ds dses)
  show ?case
  proof (cases "\<not> IsHTTP e (Type ds) \<and> \<not> IsDNS e (Type ds)")
    case True
    with Cons.prems have "dsKeysLoop e cdnKeys kExp zExp ttl matchLists cdnDomain dses newKeys = Inr b"
      by simp
    from Cons.IH [OF this Cons.prems(2)] show ?thesis .
  next
    case False
    with Cons.prems obtain matchlist dsKeys where
      m: "matchLists (Name ds) = Some matchlist" and
      c: "deliveryservice_CreateDNSSECKeys e (Name ds)
            (deliveryservice_MakeExampleURLs e (Protocol ds) (Type ds) (RoutingName ds) matchlist cdnDomain)
            cdnKeys kExp zExp ttl True = Inr dsKeys" and
      l: "dsKeysLoop e cdnKeys kExp zExp ttl matchLists cdnDomain dses (newKeys(Name ds \<mapsto> dsKeys)) = Inr b"
      by (auto simp: Let_def split: option.splits sum.splits)
    from Cons.IH [OF l Cons.prems(2)] c show ?thesis
      by (auto split: if_splits)
  qed
qed


lemma loop_missing_match_list:
  "ds \<in> set dses \<Longrightarrow> IsHTTP e (Type ds) \<or> IsDNS e (Type ds) \<Longrightarrow> matchLists (Name ds) = None \<Longrightarrow>
   \<exists>err. dsKeysLoop e cdnKeys kExp zExp ttl matchLists cdnDomain dses newKeys = Inl err"
proof (induction dses arbitrary: newKeys)
  case Nil
  then show ?case by simp
next
  case (Cons d dses)
  show ?case
  proof (cases "d = ds")
    case True
    with Cons.prems show ?thesis by auto
  next
    case False
    with Cons.prems have "ds \<in> set dses" by simp
    from Cons.IH [OF this Cons.prems(2,3)] show ?thesis
      by (auto simp: Let_def split: option.splits sum.splits)
  qed
qed


subsection \<open>What a successful rotation went through\<close>

lemma newDNSSECKeys_Inr:
  assumes "newDNSSECKeys e kv cdnName ttlSeconds kExpDays zExpDays effectiveDateUnix = Inr b"
  obtains oldKeys dses cdnDomain matchLists where
    "riaksvc_GetDNSSECKeys e cdnName kv = (oldKeys, True, None)"
    "getCDNDeliveryServices e cdnName = Inr (dses, cdnDomain)"
    "deliveryservice_GetDeliveryServicesMatchLists e (map Name dses) = (matchLists, None)"
    "dsKeysLoop e (cdnKeySet oldKeys cdnName (ttlSeconds * Second) effectiveDateUnix)
       (kExpDays * Hour * 24) (zExpDays * Hour * 24) (ttlSeconds * Second) matchLists cdnDomain dses
       (Map.empty(cdnName \<mapsto> cdnKeySet oldKeys cdnName (ttlSeconds * Second) effectiveDateUnix)) = Inr b"
  using assms unfolding newDNSSECKeys_def Let_def
  by (auto split: prod.splits option.splits sum.splits if_splits)

lemma generateStore_success:
  assumes "generateStoreDNSSECKeys e kv cdnName ttlSeconds kExpDays zExpDays effectiveDateUnix = (None, kv')"
  obtains b where
    "newDNSSECKeys e kv cdnName ttlSeconds kExpDays zExpDays effectiveDateUnix = Inr b"
    "riaksvc_PutDNSSECKeys e b cdnName kv = (None, kv')"
  using assms unfolding generateStoreDNSSECKeys_def
  by (auto split: prod.splits option.splits sum.splits)

lemma generateStore_failure:
  "newDNSSECKeys e kv cdnName ttlSeconds kExpDays zExpDays effectiveDateUnix = Inl err \<Longrightarrow>
   generateStoreDNSSECKeys e kv cdnName ttlSeconds kExpDays zExpDays effectiveDateUnix = (Some err, kv)"
  by (simp add: generateStoreDNSSECKeys_def)

subsection \<open>Heads of key lists\<close>

lemma headIsNew_append: "headIsNew keys \<Longrightarrow> headIsNew (keys @ appended)"
  by (cases keys) (simp_all add: headIsNew_def)

lemma cdnKeySet_headsAreNew:
  "oldKeys cdnName = Some ks \<Longrightarrow> headsAreNew ks \<Longrightarrow>
   headsAreNew (cdnKeySet oldKeys cdnName ttl effectiveDateUnix)"
  by (auto simp: cdnKeySet_def headsAreNew_def Let_def headIsNew_append)

section \<open>The key sets a rotation writes\<close>

text \<open>
  C1, as stated, fails: a rotation whose old bundle has no key set under the CDN name
  succeeds and writes, under the CDN name, a key set without any KSK. Here the CDN has no
  delivery service, so nothing but lines 86 to 101 shapes the bundle.
\<close>

theorem rotation_writes_empty_apex_key_set:
  "fst (generateStoreDNSSECKeys (cdnA ''HTTP'' [] Map.empty) apexlessCluster ''cdn-a'' 3600 365 30 1500)
     = None \<and>
   the (storedBundle
          (snd (generateStoreDNSSECKeys (cdnA ''HTTP'' [] Map.empty) apexlessCluster ''cdn-a'' 3600 365 30 1500))
          ''cdn-a'') ''cdn-a'' \<noteq> None \<and>
   KSK (the (the (storedBundle
          (snd (generateStoreDNSSECKeys (cdnA ''HTTP'' [] Map.empty) apexlessCluster ''cdn-a'' 3600 365 30 1500))
          ''cdn-a'') ''cdn-a'')) = []"
  by (simp add: model_defs)

text \<open>
  C1, amended. After a successful rotation every key set of the bundle handed to the store
  has at least one KSK and one ZSK whose record at index 0 has status \<open>new\<close>, provided the
  old bundle's key set under the CDN name had this shape and every key set that
  \<open>deliveryservice.CreateDNSSECKeys\<close> returns has it. The rotation mints no key for the
  CDN itself: the heads under the CDN name are the old heads.
\<close>

theorem rotation_keeps_heads_new:
  assumes "generateStoreDNSSECKeys e kv cdnName ttlSeconds kExpDays zExpDays effectiveDateUnix = (None, kv')"
    and "riaksvc_GetDNSSECKeys e cdnName kv = (oldKeys, found, err)"
    and "oldKeys cdnName = Some oldKeyCDN"
    and "headsAreNew oldKeyCDN"
    and "\<forall>name urls cdnKeys kExp zExp ttl overrideTTL dsKeys.
           deliveryservice_CreateDNSSECKeys e name urls cdnKeys kExp zExp ttl overrideTTL = Inr dsKeys
           \<longrightarrow> headsAreNew dsKeys"
  shows "\<exists>newKeys.
           newDNSSECKeys e kv cdnName ttlSeconds kExpDays zExpDays effectiveDateUnix = Inr newKeys \<and>
           riaksvc_PutDNSSECKeys e newKeys cdnName kv = (None, kv') \<and>
           (\<forall>name ks. newKeys name = Some ks \<longrightarrow> headsAreNew ks)"
proof -
  from assms(1) obtain b where
    b: "newDNSSECKeys e kv cdnName ttlSeconds kExpDays zExpDays effectiveDateUnix = Inr b" and
    p: "riaksvc_PutDNSSECKeys e b cdnName kv = (None, kv')"
    by (rule generateStore_success)
  from b obtain oldKeys' dses cdnDomain matchLists where
    g: "riaksvc_GetDNSSECKeys e cdnName kv = (oldKeys', True, None)" and
    l: "dsKeysLoop e (cdnKeySet oldKeys' cdnName (ttlSeconds * Second) effectiveDateUnix)
       (kExpDays * Hour * 24) (zExpDays * Hour * 24) (ttlSeconds * Second) matchLists cdnDomain dses
       (Map.empty(cdnName \<mapsto> cdnKeySet oldKeys' cdnName (ttlSeconds * Second) effectiveDateUnix)) = Inr b"
    by (rule newDNSSECKeys_Inr)
  from g assms(2) have o: "oldKeys' = oldKeys" by simp
  have apex: "headsAreNew (cdnKeySet oldKeys cdnName (ttlSeconds * Second) effectiveDateUnix)"
    using assms(3,4) by (rule cdnKeySet_headsAreNew)
  have "headsAreNew ks" if "b name = Some ks" for name ks
  proof -
    from loop_values [OF l that]
    show ?thesis using apex assms(5) o by (auto split: if_splits)
  qed
  with b p show ?thesis by blast
qed

theorem rotation_keeps_heads_new_witness:
  "fst (generateStoreDNSSECKeys (cdnA ''HTTP'' [row ''d1'' ''HTTP''] (Map.empty(''d1'' \<mapsto> [''.d1.'']))) warmCluster
          ''cdn-a'' 3600 365 30 1500) = None \<and>
   headsAreNew (the (warmBundle ''cdn-a'')) \<and>
   (\<exists>newKeys.
      newDNSSECKeys (cdnA ''HTTP'' [row ''d1'' ''HTTP''] (Map.empty(''d1'' \<mapsto> [''.d1.'']))) warmCluster
        ''cdn-a'' 3600 365 30 1500 = Inr newKeys \<and>
      newKeys ''cdn-a'' \<noteq> None \<and> newKeys ''d1'' \<noteq> None \<and>
      (\<forall>name ks. newKeys name = Some ks \<longrightarrow> headsAreNew ks))"
proof -
  let ?e = "cdnA ''HTTP'' [row ''d1'' ''HTTP''] (Map.empty(''d1'' \<mapsto> [''.d1.'']))"
  let ?g = "generateStoreDNSSECKeys ?e warmCluster ''cdn-a'' 3600 365 30 1500"
  have ok: "fst ?g = None"
    by (simp add: model_defs)
  then have h1: "?g = (None, snd ?g)"
    by (simp add: prod_eq_iff)
  have h2: "riaksvc_GetDNSSECKeys ?e ''cdn-a'' warmCluster = (warmBundle, True, None)"
    by (simp add: cdnA_def GetDNSSECKeys_def warmCluster_def CDNDNSSECKeyType_def)
  have h3: "warmBundle ''cdn-a'' =
      Some \<lparr>ZSK = [mkKey ''cdn-a'' ''new''], KSK = [mkKey ''cdn-a'' ''new'']\<rparr>"
    by (simp add: warmBundle_def)
  have h4: "headsAreNew \<lparr>ZSK = [mkKey ''cdn-a'' ''new''], KSK = [mkKey ''cdn-a'' ''new'']\<rparr>"
    by (simp add: headsAreNew_def headIsNew_def mkKey_def DNSSECStatusNew_def)
  have h5: "\<forall>name urls cdnKeys kExp zExp ttl overrideTTL dsKeys.
      deliveryservice_CreateDNSSECKeys ?e name urls cdnKeys kExp zExp ttl overrideTTL = Inr dsKeys
      \<longrightarrow> headsAreNew dsKeys"
    by (auto simp: cdnA_def headsAreNew_def headIsNew_def mkKey_def)
  from rotation_keeps_heads_new [OF h1 h2 h3 h4 h5] obtain newKeys where
    n: "newDNSSECKeys ?e warmCluster ''cdn-a'' 3600 365 30 1500 = Inr newKeys" and
    a: "\<forall>name ks. newKeys name = Some ks \<longrightarrow> headsAreNew ks"
    by blast
  have "newDNSSECKeys ?e warmCluster ''cdn-a'' 3600 365 30 1500 = Inr newKeys \<longrightarrow>
      newKeys ''cdn-a'' \<noteq> None \<and> newKeys ''d1'' \<noteq> None"
    by (auto simp: model_defs)
  with n a ok h3 h4 show ?thesis by auto
qed

section \<open>Demotion of the prior heads\<close>

text \<open>
  C2, as stated, fails on the TTL: the rotation turns the requested seconds into a
  duration in nanoseconds and back, and the product wraps around once it leaves the range
  of \<open>int64\<close>. A warm rotation asked for a TTL of 9223372037 seconds succeeds and stores the
  demoted KSK with a TTL of 18446744064486179580 seconds.
\<close>

theorem demoted_ttl_wraps_around:
  "fst (generateStoreDNSSECKeys (cdnA ''HTTP'' [] Map.empty) warmCluster ''cdn-a'' 9223372037 365 30 1500)
     = None \<and>
   TTLSeconds (KSK (the (the (storedBundle
       (snd (generateStoreDNSSECKeys (cdnA ''HTTP'' [] Map.empty) warmCluster ''cdn-a'' 9223372037 365 30 1500))
       ''cdn-a'') ''cdn-a'')) ! 1) = 18446744064486179580"
  by (simp add: model_defs int64_div_def Second_def signed_divide_int_def)

text \<open>
  C2, amended. For an old bundle with a key set under the CDN name and a requested TTL of
  at most 9223372036 seconds (so that its nanoseconds fit an \<open>int64\<close>), the key set the
  rotation builds for the CDN name keeps every prior KSK in place and has, appended behind
  them, exactly one copy of the prior head KSK with status \<open>existing\<close>, the requested TTL
  and the effective date as expiration, when the KSK list was not empty; likewise for the
  ZSK list.
\<close>

theorem demotion_appends_existing_copy:
  assumes "oldKeys cdnName = Some oldKeyCDN"
    and "unat ttlSeconds \<le> 9223372036"
  shows "(KSK oldKeyCDN \<noteq> [] \<longrightarrow>
            KSK (cdnKeySet oldKeys cdnName (ttlSeconds * Second) effectiveDateUnix) =
              KSK oldKeyCDN @
                [(KSK oldKeyCDN ! 0)\<lparr>Status := ''existing'', TTLSeconds := ttlSeconds,
                                     ExpirationDateUnix := effectiveDateUnix\<rparr>]) \<and>
         (ZSK oldKeyCDN \<noteq> [] \<longrightarrow>
            ZSK (cdnKeySet oldKeys cdnName (ttlSeconds * Second) effectiveDateUnix) =
              ZSK oldKeyCDN @
                [(ZSK oldKeyCDN ! 0)\<lparr>Status := ''existing'', TTLSeconds := ttlSeconds,
                                     ExpirationDateUnix := effectiveDateUnix\<rparr>])"
  using assms(1) ttl_roundtrip [OF assms(2)]
  by (simp add: cdnKeySet_def demoted_def DNSSECStatusExisting_def)

theorem demotion_appends_existing_copy_witness:
  "warmBundle ''cdn-a'' = Some \<lparr>ZSK = [mkKey ''cdn-a'' ''new''], KSK = [mkKey ''cdn-a'' ''new'']\<rparr> \<and>
   unat (3600 :: uint64) \<le> 9223372036 \<and>
   KSK (cdnKeySet warmBundle ''cdn-a'' (3600 * Second) 1500) =
     [mkKey ''cdn-a'' ''new'',
      (mkKey ''cdn-a'' ''new'')\<lparr>Status := ''existing'', TTLSeconds := 3600, ExpirationDateUnix := 1500\<rparr>] \<and>
   ZSK (cdnKeySet warmBundle ''cdn-a'' (3600 * Second) 1500) =
     [mkKey ''cdn-a'' ''new'',
      (mkKey ''cdn-a'' ''new'')\<lparr>Status := ''existing'', TTLSeconds := 3600, ExpirationDateUnix := 1500\<rparr>]"
proof -
  have h1: "warmBundle ''cdn-a'' =
      Some \<lparr>ZSK = [mkKey ''cdn-a'' ''new''], KSK = [mkKey ''cdn-a'' ''new'']\<rparr>"
    by (simp add: warmBundle_def)
  have h2: "unat (3600 :: uint64) \<le> 9223372036"
    by simp
  from demotion_appends_existing_copy
         [where oldKeys = warmBundle and cdnName = "''cdn-a''" and effectiveDateUnix = 1500, OF h1 h2]
       h1 h2
  show ?thesis
    by simp
qed

section \<open>Rotation without a stored bundle\<close>

text \<open>
  C3. When the key store reports that no bundle exists for the CDN (found = false, no
  error), \<open>generateStoreDNSSECKeys\<close> returns an error whose message contains
  \<open>no DNSSec keys for CDN\<close>, and the store is the one it was given: nothing was written.
\<close>

theorem missing_bundle_is_refused:
  assumes "riaksvc_GetDNSSECKeys e cdnName kv = (oldKeys, False, None)"
  shows "\<exists>msg. generateStoreDNSSECKeys e kv cdnName ttlSeconds kExpDays zExpDays effectiveDateUnix
                  = (Some msg, kv) \<and>
               sublist ''no DNSSec keys for CDN'' msg"
proof -
  let ?msg = "''getting DNSSec keys from Riak: no DNSSec keys for CDN''"
  have "newDNSSECKeys e kv cdnName ttlSeconds kExpDays zExpDays effectiveDateUnix = Inl ?msg"
    using assms by (simp add: newDNSSECKeys_def)
  then have "generateStoreDNSSECKeys e kv cdnName ttlSeconds kExpDays zExpDays effectiveDateUnix
      = (Some ?msg, kv)"
    by (rule generateStore_failure)
  moreover have "sublist ''no DNSSec keys for CDN''
      (''getting DNSSec keys from Riak: '' @ ''no DNSSec keys for CDN'' @ [])"
    by (rule sublist_appendI)
  then have "sublist ''no DNSSec keys for CDN'' ?msg"
    by simp
  ultimately show ?thesis by blast
qed

theorem missing_bundle_is_refused_witness:
  "riaksvc_GetDNSSECKeys (cdnA ''HTTP'' [row ''d1'' ''HTTP''] Map.empty) ''cdn-a'' emptyCluster
     = (Map.empty, False, None) \<and>
   generateStoreDNSSECKeys (cdnA ''HTTP'' [row ''d1'' ''HTTP''] Map.empty) emptyCluster ''cdn-a'' 3600 365 30 1500
     = (Some ''getting DNSSec keys from Riak: no DNSSec keys for CDN'', emptyCluster) \<and>
   storedBundle emptyCluster ''cdn-a'' = None"
proof -
  let ?e = "cdnA ''HTTP'' [row ''d1'' ''HTTP''] Map.empty"
  have h: "riaksvc_GetDNSSECKeys ?e ''cdn-a'' emptyCluster = (Map.empty, False, None)"
    by (simp add: cdnA_def GetDNSSECKeys_def emptyCluster_def)
  from missing_bundle_is_refused [OF h, of 3600 365 30 1500] obtain msg where
    m: "generateStoreDNSSECKeys ?e emptyCluster ''cdn-a'' 3600 365 30 1500 = (Some msg, emptyCluster)"
    by blast
  have "generateStoreDNSSECKeys ?e emptyCluster ''cdn-a'' 3600 365 30 1500 = (Some msg, emptyCluster)
      \<longrightarrow> msg = ''getting DNSSec keys from Riak: no DNSSec keys for CDN''"
    by (simp add: generateStoreDNSSECKeys_def newDNSSECKeys_def cdnA_def GetDNSSECKeys_def
        emptyCluster_def)
  with m h show ?thesis
    by (simp add: storedBundle_def emptyCluster_def)
qed

section \<open>Every eligible delivery service gets a key set\<close>

text \<open>
  C4. When a rotation returns success, the bundle handed to the store has a key set under
  the name of every delivery service returned by \<open>getCDNDeliveryServices\<close> whose type is
  HTTP-family or DNS-family.
\<close>

theorem rotation_covers_every_eligible_ds:
  assumes "generateStoreDNSSECKeys e kv cdnName ttlSeconds kExpDays zExpDays effectiveDateUnix = (None, kv')"
    and "getCDNDeliveryServices e cdnName = Inr (dses, cdnDomain)"
  shows "\<exists>newKeys.
           newDNSSECKeys e kv cdnName ttlSeconds kExpDays zExpDays effectiveDateUnix = Inr newKeys \<and>
           riaksvc_PutDNSSECKeys e newKeys cdnName kv = (None, kv') \<and>
           (\<forall>ds \<in> set dses. IsHTTP e (Type ds) \<or> IsDNS e (Type ds) \<longrightarrow> newKeys (Name ds) \<noteq> None)"
proof -
  from assms(1) obtain b where
    b: "newDNSSECKeys e kv cdnName ttlSeconds kExpDays zExpDays effectiveDateUnix = Inr b" and
    p: "riaksvc_PutDNSSECKeys e b cdnName kv = (None, kv')"
    by (rule generateStore_success)
  from b obtain oldKeys dses' cdnDomain' matchLists where
    d: "getCDNDeliveryServices e cdnName = Inr (dses', cdnDomain')" and
    l: "dsKeysLoop e (cdnKeySet oldKeys cdnName (ttlSeconds * Second) effectiveDateUnix)
       (kExpDays * Hour * 24) (zExpDays * Hour * 24) (ttlSeconds * Second) matchLists cdnDomain' dses'
       (Map.empty(cdnName \<mapsto> cdnKeySet oldKeys cdnName (ttlSeconds * Second) effectiveDateUnix)) = Inr b"
    by (rule newDNSSECKeys_Inr)
  from d assms(2) have same: "dses' = dses" by simp
  have "b (Name ds) \<noteq> None" if "ds \<in> set dses" "IsHTTP e (Type ds) \<or> IsDNS e (Type ds)" for ds
    using loop_covers_eligible [OF l, of "Name ds"] that same by blast
  with b p show ?thesis by blast
qed

theorem rotation_covers_every_eligible_ds_witness:
  "fst (generateStoreDNSSECKeys
          (cdnA ''HTTP'' [row ''d1'' ''HTTP'', row ''d2'' ''HTTP''] (Map.empty(''d1'' \<mapsto> [''.d1.''], ''d2'' \<mapsto> [''.d2.''])))
          warmCluster ''cdn-a'' 3600 365 30 1500) = None \<and>
   getCDNDeliveryServices
     (cdnA ''HTTP'' [row ''d1'' ''HTTP'', row ''d2'' ''HTTP''] (Map.empty(''d1'' \<mapsto> [''.d1.''], ''d2'' \<mapsto> [''.d2.''])))
     ''cdn-a''
     = Inr ([\<lparr>Name = ''d1'', Protocol = Some 0, Type = ''HTTP'', RoutingName = ''cdn''\<rparr>,
             \<lparr>Name = ''d2'', Protocol = Some 0, Type = ''HTTP'', RoutingName = ''cdn''\<rparr>],
            ''example.net'') \<and>
   (\<exists>newKeys.
      newDNSSECKeys
        (cdnA ''HTTP'' [row ''d1'' ''HTTP'', row ''d2'' ''HTTP''] (Map.empty(''d1'' \<mapsto> [''.d1.''], ''d2'' \<mapsto> [''.d2.''])))
        warmCluster ''cdn-a'' 3600 365 30 1500 = Inr newKeys \<and>
      newKeys ''d1'' \<noteq> None \<and> newKeys ''d2'' \<noteq> None)"
proof -
  let ?e = "cdnA ''HTTP'' [row ''d1'' ''HTTP'', row ''d2'' ''HTTP''] (Map.empty(''d1'' \<mapsto> [''.d1.''], ''d2'' \<mapsto> [''.d2.'']))"
  let ?g = "generateStoreDNSSECKeys ?e warmCluster ''cdn-a'' 3600 365 30 1500"
  have ok: "fst ?g = None"
    by (simp add: model_defs)
  then have h1: "?g = (None, snd ?g)"
    by (simp add: prod_eq_iff)
  have h2: "getCDNDeliveryServices ?e ''cdn-a''
     = Inr ([\<lparr>Name = ''d1'', Protocol = Some 0, Type = ''HTTP'', RoutingName = ''cdn''\<rparr>,
             \<lparr>Name = ''d2'', Protocol = Some 0, Type = ''HTTP'', RoutingName = ''cdn''\<rparr>],
            ''example.net'')"
    by (simp add: getCDNDeliveryServices_def cdnA_def row_def Let_def)
  from rotation_covers_every_eligible_ds [OF h1 h2] obtain newKeys where
    n: "newDNSSECKeys ?e warmCluster ''cdn-a'' 3600 365 30 1500 = Inr newKeys" and
    a: "\<forall>ds \<in> set [\<lparr>Name = ''d1'', Protocol = Some 0, Type = ''HTTP'', RoutingName = ''cdn''\<rparr>,
                      \<lparr>Name = ''d2'', Protocol = Some 0, Type = ''HTTP'', RoutingName = ''cdn''\<rparr>].
          IsHTTP ?e (Type ds) \<or> IsDNS ?e (Type ds) \<longrightarrow> newKeys (Name ds) \<noteq> None"
    by blast
  from a have "newKeys ''d1'' \<noteq> None \<and> newKeys ''d2'' \<noteq> None"
    by (simp add: cdnA_def)
  with n ok h2 show ?thesis by blast
qed

section \<open>A missing match list aborts the rotation\<close>

text \<open>
  C5. If the match-list mapping returned for the CDN's delivery services has no entry for
  one of them whose type is HTTP-family or DNS-family, the rotation returns an error and
  the store is the one it was given: nothing was written.
\<close>

theorem missing_match_list_aborts:
  assumes "getCDNDeliveryServices e cdnName = Inr (dses, cdnDomain)"
    and "deliveryservice_GetDeliveryServicesMatchLists e (map Name dses) = (matchLists, matchErr)"
    and "ds \<in> set dses"
    and "IsHTTP e (Type ds) \<or> IsDNS e (Type ds)"
    and "matchLists (Name ds) = None"
  shows "\<exists>msg. generateStoreDNSSECKeys e kv cdnName ttlSeconds kExpDays zExpDays effectiveDateUnix
                  = (Some msg, kv)"
proof -
  have "\<exists>err. newDNSSECKeys e kv cdnName ttlSeconds kExpDays zExpDays effectiveDateUnix = Inl err"
  proof (cases "newDNSSECKeys e kv cdnName ttlSeconds kExpDays zExpDays effectiveDateUnix")
    case (Inl err)
    then show ?thesis by blast
  next
    case (Inr b)
    then obtain oldKeys dses' cdnDomain' matchLists' where
      d: "getCDNDeliveryServices e cdnName = Inr (dses', cdnDomain')" and
      m: "deliveryservice_GetDeliveryServicesMatchLists e (map Name dses') = (matchLists', None)" and
      l: "dsKeysLoop e (cdnKeySet oldKeys cdnName (ttlSeconds * Second) effectiveDateUnix)
         (kExpDays * Hour * 24) (zExpDays * Hour * 24) (ttlSeconds * Second) matchLists' cdnDomain' dses'
         (Map.empty(cdnName \<mapsto> cdnKeySet oldKeys cdnName (ttlSeconds * Second) effectiveDateUnix)) = Inr b"
      by (rule newDNSSECKeys_Inr)
    from d assms(1) have same: "dses' = dses" by simp
    from m assms(2) same have mm: "matchLists' = matchLists" by simp
    have "\<exists>err. dsKeysLoop e (cdnKeySet oldKeys cdnName (ttlSeconds * Second) effectiveDateUnix)
         (kExpDays * Hour * 24) (zExpDays * Hour * 24) (ttlSeconds * Second) matchLists cdnDomain' dses
         (Map.empty(cdnName \<mapsto> cdnKeySet oldKeys cdnName (ttlSeconds * Second) effectiveDateUnix))
         = Inl err"
      by (rule loop_missing_match_list [where ds = ds]) (fact assms(3), fact assms(4), fact assms(5))
    with l same mm show ?thesis by simp
  qed
  then show ?thesis
    by (auto dest: generateStore_failure)
qed

theorem missing_match_list_aborts_witness:
  "getCDNDeliveryServices (cdnA ''HTTP'' [row ''d1'' ''HTTP'', row ''d2'' ''HTTP''] (Map.empty(''d2'' \<mapsto> [''.d2.''])))
     ''cdn-a''
     = Inr ([\<lparr>Name = ''d1'', Protocol = Some 0, Type = ''HTTP'', RoutingName = ''cdn''\<rparr>,
             \<lparr>Name = ''d2'', Protocol = Some 0, Type = ''HTTP'', RoutingName = ''cdn''\<rparr>],
            ''example.net'') \<and>
   IsHTTP (cdnA ''HTTP'' [row ''d1'' ''HTTP'', row ''d2'' ''HTTP''] (Map.empty(''d2'' \<mapsto> [''.d2.'']))) ''HTTP'' \<and>
   (Map.empty(''d2'' \<mapsto> [''.d2.''])) ''d1'' = None \<and>
   (\<exists>msg. generateStoreDNSSECKeys
             (cdnA ''HTTP'' [row ''d1'' ''HTTP'', row ''d2'' ''HTTP''] (Map.empty(''d2'' \<mapsto> [''.d2.''])))
             warmCluster ''cdn-a'' 3600 365 30 1500 = (Some msg, warmCluster))"
proof -
  let ?ml = "Map.empty(''d2'' \<mapsto> [''.d2.''])"
  let ?e = "cdnA ''HTTP'' [row ''d1'' ''HTTP'', row ''d2'' ''HTTP''] ?ml"
  let ?d1 = "\<lparr>Name = ''d1'', Protocol = Some 0, Type = ''HTTP'', RoutingName = ''cdn''\<rparr>"
  let ?d2 = "\<lparr>Name = ''d2'', Protocol = Some 0, Type = ''HTTP'', RoutingName = ''cdn''\<rparr>"
  have h1: "getCDNDeliveryServices ?e ''cdn-a'' = Inr ([?d1, ?d2], ''example.net'')"
    by (simp add: getCDNDeliveryServices_def cdnA_def row_def Let_def)
  have h2: "deliveryservice_GetDeliveryServicesMatchLists ?e (map Name [?d1, ?d2]) = (?ml, None)"
    by (simp add: cdnA_def)
  have h3: "?d1 \<in> set [?d1, ?d2]"
    by simp
  have h4: "IsHTTP ?e (Type ?d1) \<or> IsDNS ?e (Type ?d1)"
    by (simp add: cdnA_def)
  have h5: "?ml (Name ?d1) = None"
    by simp
  have i: "IsHTTP ?e ''HTTP''"
    by (simp add: cdnA_def)
  from missing_match_list_aborts [OF h1 h2 h3 h4 h5, of warmCluster 3600 365 30 1500] h1 i
  show ?thesis by simp
qed

section \<open>Delivery services of other types are skipped\<close>



section \<open>Committing and rolling back\<close>

text \<open>
  C7. \<open>FinishTx\<close> and \<open>FinishTxX\<close> call nothing for a nil transaction and otherwise commit
  when the flag they are given points to true and roll back when it points to false. In
  the handler \<open>CreateDNSSECKeys\<close>, entered with a transaction and a flag that is false, the
  deferred release commits exactly when the request was parsed, its fields are present and
  \<open>generateStoreDNSSECKeys\<close> returned no error; in every other case, so after every failed
  rotation, it rolls back.
\<close>

theorem finish_follows_commit_flag:
  "FinishTx None commit = NoTxCall \<and>
   FinishTxX None commit = NoTxCall \<and>
   FinishTx (Some tx) (Some c) = (if c then TxCommit else TxRollback) \<and>
   FinishTxX (Some tx) (Some c) = (if c then TxCommit else TxRollback) \<and>
   (api_NewInfo a r [] = (info, None, None, code) \<and> InfoTx info = Some t \<and>
    CommitTx info = Some False \<longrightarrow>
      finish (CreateDNSSECKeys a e r kv) =
        (if \<exists>req cdnName ttl kExpDays zExpDays.
              api_Parse a r = Inr req \<and> Key req = Some cdnName \<and> TTL req = Some ttl \<and>
              KSKExpirationDays req = Some kExpDays \<and> ZSKExpirationDays req = Some zExpDays \<and>
              fst (generateStoreDNSSECKeys e kv cdnName ttl kExpDays zExpDays
                     (case EffectiveDateUnix req of None \<Rightarrow> time_Now_Unix a | Some d \<Rightarrow> d)) = None
         then TxCommit else TxRollback))"
proof -
  have fin: "FinishTx None commit = NoTxCall \<and> FinishTxX None commit = NoTxCall \<and>
      FinishTx (Some tx) (Some c) = (if c then TxCommit else TxRollback) \<and>
      FinishTxX (Some tx) (Some c) = (if c then TxCommit else TxRollback)"
    by (simp add: FinishTx_def FinishTxX_def)
  have handler: "finish (CreateDNSSECKeys a e r kv) =
        (if \<exists>req cdnName ttl kExpDays zExpDays.
              api_Parse a r = Inr req \<and> Key req = Some cdnName \<and> TTL req = Some ttl \<and>
              KSKExpirationDays req = Some kExpDays \<and> ZSKExpirationDays req = Some zExpDays \<and>
              fst (generateStoreDNSSECKeys e kv cdnName ttl kExpDays zExpDays
                     (case EffectiveDateUnix req of None \<Rightarrow> time_Now_Unix a | Some d \<Rightarrow> d)) = None
         then TxCommit else TxRollback)"
    if n: "api_NewInfo a r [] = (info, None, None, code)" and t: "InfoTx info = Some t"
      and f: "CommitTx info = Some False"
  proof (cases "api_Parse a r")
    case (Inl err)
    with n t f show ?thesis
      by (simp add: CreateDNSSECKeys_def Close_def FinishTxX_def)
  next
    case (Inr req)
    show ?thesis
    proof (cases "\<exists>cdnName ttl kExpDays zExpDays. Key req = Some cdnName \<and> TTL req = Some ttl \<and>
              KSKExpirationDays req = Some kExpDays \<and> ZSKExpirationDays req = Some zExpDays")
      case True
      then obtain cdnName ttl kExpDays zExpDays where
        k: "Key req = Some cdnName" "TTL req = Some ttl"
           "KSKExpirationDays req = Some kExpDays" "ZSKExpirationDays req = Some zExpDays"
        by blast
      show ?thesis
      proof (cases "generateStoreDNSSECKeys e kv cdnName ttl kExpDays zExpDays
                     (case EffectiveDateUnix req of None \<Rightarrow> time_Now_Unix a | Some d \<Rightarrow> d)")
        case (Pair err kv')
        with n t f Inr k show ?thesis
          by (cases err) (simp_all add: CreateDNSSECKeys_def Close_def FinishTxX_def)
      qed
    next
      case False
      with n t f Inr show ?thesis
        by (auto simp: CreateDNSSECKeys_def Close_def FinishTxX_def split: option.splits)
    qed
  qed
  from fin handler show ?thesis by blast
qed

theorem finish_follows_commit_flag_witness:
  "api_NewInfo (okApi generateReq) ''cdn-a'' [] = (okInfo ''cdn-a'', None, None, 200) \<and>
   InfoTx (okInfo ''cdn-a'') = Some 0 \<and>
   CommitTx (okInfo ''cdn-a'') = Some False \<and>
   fst (generateStoreDNSSECKeys (cdnA ''HTTP'' [] Map.empty) emptyCluster ''cdn-a'' 3600 365 30 1500) \<noteq> None \<and>
   finish (CreateDNSSECKeys (okApi generateReq) (cdnA ''HTTP'' [] Map.empty) ''cdn-a'' emptyCluster)
     = TxRollback \<and>
   fst (generateStoreDNSSECKeys (cdnA ''HTTP'' [] Map.empty) warmCluster ''cdn-a'' 3600 365 30 1500) = None \<and>
   finish (CreateDNSSECKeys (okApi generateReq) (cdnA ''HTTP'' [] Map.empty) ''cdn-a'' warmCluster)
     = TxCommit"
proof -
  let ?a = "okApi generateReq"
  let ?e = "cdnA ''HTTP'' [] Map.empty"
  have h: "api_NewInfo ?a ''cdn-a'' [] = (okInfo ''cdn-a'', None, None, 200) \<and>
      InfoTx (okInfo ''cdn-a'') = Some 0 \<and> CommitTx (okInfo ''cdn-a'') = Some False"
    by (simp add: okApi_def okInfo_def)
  have cold: "fst (generateStoreDNSSECKeys ?e emptyCluster ''cdn-a'' 3600 365 30 1500) \<noteq> None"
    by (simp add: model_defs)
  have warm: "fst (generateStoreDNSSECKeys ?e warmCluster ''cdn-a'' 3600 365 30 1500) = None"
    by (simp add: model_defs)
  have p: "api_Parse ?a ''cdn-a'' = Inr generateReq \<and> time_Now_Unix ?a = 1500"
    by (simp add: okApi_def)
  have "finish (CreateDNSSECKeys ?a ?e ''cdn-a'' emptyCluster) = TxRollback"
  proof -
    have no: "\<not> (\<exists>req cdnName ttl kExpDays zExpDays.
              api_Parse ?a ''cdn-a'' = Inr req \<and> Key req = Some cdnName \<and> TTL req = Some ttl \<and>
              KSKExpirationDays req = Some kExpDays \<and> ZSKExpirationDays req = Some zExpDays \<and>
              fst (generateStoreDNSSECKeys ?e emptyCluster cdnName ttl kExpDays zExpDays
                     (case EffectiveDateUnix req of None \<Rightarrow> time_Now_Unix ?a | Some d \<Rightarrow> d)) = None)"
      using cold p by (auto simp: generateReq_def)
    have c5: "P5" if "P1 \<and> P2 \<and> P3 \<and> P4 \<and> (H \<longrightarrow> P5)" "H" for P1 P2 P3 P4 P5 H
      using that by simp
    from finish_follows_commit_flag
           [where a = "?a" and e = "?e" and r = "''cdn-a''" and kv = emptyCluster
              and info = "okInfo ''cdn-a''" and code = 200 and t = 0, THEN c5, OF h]
    have "finish (CreateDNSSECKeys ?a ?e ''cdn-a'' emptyCluster) =
        (if \<exists>req cdnName ttl kExpDays zExpDays.
              api_Parse ?a ''cdn-a'' = Inr req \<and> Key req = Some cdnName \<and> TTL req = Some ttl \<and>
              KSKExpirationDays req = Some kExpDays \<and> ZSKExpirationDays req = Some zExpDays \<and>
              fst (generateStoreDNSSECKeys ?e emptyCluster cdnName ttl kExpDays zExpDays
                     (case EffectiveDateUnix req of None \<Rightarrow> time_Now_Unix ?a | Some d \<Rightarrow> d)) = None
         then TxCommit else TxRollback)" .
    with no show ?thesis by (simp only: if_False)
  qed
  moreover have "finish (CreateDNSSECKeys ?a ?e ''cdn-a'' warmCluster) = TxCommit"
  proof -
    have yes: "\<exists>req cdnName ttl kExpDays zExpDays.
              api_Parse ?a ''cdn-a'' = Inr req \<and> Key req = Some cdnName \<and> TTL req = Some ttl \<and>
              KSKExpirationDays req = Some kExpDays \<and> ZSKExpirationDays req = Some zExpDays \<and>
              fst (generateStoreDNSSECKeys ?e warmCluster cdnName ttl kExpDays zExpDays
                     (case EffectiveDateUnix req of None \<Rightarrow> time_Now_Unix ?a | Some d \<Rightarrow> d)) = None"
      using warm p by (auto simp: generateReq_def)
    have c5: "P5" if "P1 \<and> P2 \<and> P3 \<and> P4 \<and> (H \<longrightarrow> P5)" "H" for P1 P2 P3 P4 P5 H
      using that by simp
    from finish_follows_commit_flag
           [where a = "?a" and e = "?e" and r = "''cdn-a''" and kv = warmCluster
              and info = "okInfo ''cdn-a''" and code = 200 and t = 0, THEN c5, OF h]
    have "finish (CreateDNSSECKeys ?a ?e ''cdn-a'' warmCluster) =
        (if \<exists>req cdnName ttl kExpDays zExpDays.
              api_Parse ?a ''cdn-a'' = Inr req \<and> Key req = Some cdnName \<and> TTL req = Some ttl \<and>
              KSKExpirationDays req = Some kExpDays \<and> ZSKExpirationDays req = Some zExpDays \<and>
              fst (generateStoreDNSSECKeys ?e warmCluster cdnName ttl kExpDays zExpDays
                     (case EffectiveDateUnix req of None \<Rightarrow> time_Now_Unix ?a | Some d \<Rightarrow> d)) = None
         then TxCommit else TxRollback)" .
    with yes show ?thesis by (simp only: if_True)
  qed
  ultimately show ?thesis
    using h cold warm by simp
qed

section \<open>Deleting twice\<close>

text \<open>
  C8. When the handler's collaborators are in order (\<open>api.NewInfo\<close> succeeds with the
  \<open>name\<close> parameter, the cluster is obtained, started and reachable), \<open>DeleteDNSSECKeys\<close>
  answers 200 with the success message whether or not a bundle is stored for the name.
  Deleting an absent bundle leaves the store as it is; after any delete the bundle is
  absent, and a second delete of the same name answers the same and changes nothing.
\<close>

theorem delete_is_idempotent:
  assumes "api_NewInfo a r [''name''] = (info, None, None, code)"
    and "InfoTx info = Some t"
    and "CommitTx info = Some c"
    and "Params info ''name'' = Some key"
    and "riaksvc_GetRiakClusterTx a = None"
    and "riakCluster_Start a = None"
    and "reachable cluster"
  shows "(storedBundle cluster key = None \<longrightarrow>
            resp (DeleteDNSSECKeys a r cluster) = WriteResp (''Successfully deleted dnssec for '' @ key) \<and>
            statusCode (resp (DeleteDNSSECKeys a r cluster)) = Some 200 \<and>
            store (DeleteDNSSECKeys a r cluster) = cluster) \<and>
         resp (DeleteDNSSECKeys a r cluster) = WriteResp (''Successfully deleted dnssec for '' @ key) \<and>
         storedBundle (store (DeleteDNSSECKeys a r cluster)) key = None \<and>
         resp (DeleteDNSSECKeys a r (store (DeleteDNSSECKeys a r cluster)))
           = WriteResp (''Successfully deleted dnssec for '' @ key) \<and>
         statusCode (resp (DeleteDNSSECKeys a r (store (DeleteDNSSECKeys a r cluster)))) = Some 200 \<and>
         store (DeleteDNSSECKeys a r (store (DeleteDNSSECKeys a r cluster)))
           = store (DeleteDNSSECKeys a r cluster)"
proof -
  have once: "resp (DeleteDNSSECKeys a r cl) = WriteResp (''Successfully deleted dnssec for '' @ key) \<and>
      store (DeleteDNSSECKeys a r cl) = cl\<lparr>objects := (objects cl)((''dnssec'', key) := None)\<rparr>"
    if "reachable cl" for cl
    using assms(1-6) that
    by (simp add: DeleteDNSSECKeys_def DeleteObject_def CDNDNSSECKeyType_def)
  let ?first = "store (DeleteDNSSECKeys a r cluster)"
  from once [OF assms(7)] have
    r1: "resp (DeleteDNSSECKeys a r cluster) = WriteResp (''Successfully deleted dnssec for '' @ key)" and
    s1: "?first = cluster\<lparr>objects := (objects cluster)((''dnssec'', key) := None)\<rparr>"
    by simp_all
  from s1 assms(7) have reach: "reachable ?first" by simp
  from s1 have gone: "storedBundle ?first key = None"
    by (simp add: storedBundle_def CDNDNSSECKeyType_def)
  from once [OF reach] have
    r2: "resp (DeleteDNSSECKeys a r ?first) = WriteResp (''Successfully deleted dnssec for '' @ key)" and
    s2: "store (DeleteDNSSECKeys a r ?first) = ?first\<lparr>objects := (objects ?first)((''dnssec'', key) := None)\<rparr>"
    by simp_all
  from s2 s1 have same: "store (DeleteDNSSECKeys a r ?first) = ?first"
    by simp
  have absent: "store (DeleteDNSSECKeys a r cluster) = cluster" if "storedBundle cluster key = None"
  proof -
    from that have "(objects cluster)((''dnssec'', key) := None) = objects cluster"
      by (simp add: storedBundle_def CDNDNSSECKeyType_def fun_upd_idem)
    with s1 show ?thesis by simp
  qed
  from r1 r2 gone same absent show ?thesis by simp
qed

theorem delete_is_idempotent_witness:
  "api_NewInfo (okApi generateReq) ''cdn-a'' [''name''] = (okInfo ''cdn-a'', None, None, 200) \<and>
   Params (okInfo ''cdn-a'') ''name'' = Some ''cdn-a'' \<and>
   reachable warmCluster \<and>
   storedBundle warmCluster ''cdn-a'' \<noteq> None \<and>
   resp (DeleteDNSSECKeys (okApi generateReq) ''cdn-a'' warmCluster)
     = WriteResp ''Successfully deleted dnssec for cdn-a'' \<and>
   storedBundle (store (DeleteDNSSECKeys (okApi generateReq) ''cdn-a'' warmCluster)) ''cdn-a'' = None \<and>
   resp (DeleteDNSSECKeys (okApi generateReq) ''cdn-a''
           (store (DeleteDNSSECKeys (okApi generateReq) ''cdn-a'' warmCluster)))
     = WriteResp ''Successfully deleted dnssec for cdn-a'' \<and>
   storedBundle emptyCluster ''cdn-a'' = None \<and>
   resp (DeleteDNSSECKeys (okApi generateReq) ''cdn-a'' emptyCluster)
     = WriteResp ''Successfully deleted dnssec for cdn-a'' \<and>
   statusCode (resp (DeleteDNSSECKeys (okApi generateReq) ''cdn-a'' emptyCluster)) = Some 200 \<and>
   store (DeleteDNSSECKeys (okApi generateReq) ''cdn-a'' emptyCluster) = emptyCluster"
proof -
  let ?a = "okApi generateReq"
  have h1: "api_NewInfo ?a ''cdn-a'' [''name''] = (okInfo ''cdn-a'', None, None, 200)"
    by (simp add: okApi_def)
  have h2: "InfoTx (okInfo ''cdn-a'') = Some 0"
    by (simp add: okInfo_def)
  have h3: "CommitTx (okInfo ''cdn-a'') = Some False"
    by (simp add: okInfo_def)
  have h4: "Params (okInfo ''cdn-a'') ''name'' = Some ''cdn-a''"
    by (simp add: okInfo_def)
  have h5: "riaksvc_GetRiakClusterTx ?a = None"
    by (simp add: okApi_def)
  have h6: "riakCluster_Start ?a = None"
    by (simp add: okApi_def)
  have w: "reachable warmCluster"
    by (simp add: warmCluster_def)
  have c: "reachable emptyCluster"
    by (simp add: emptyCluster_def)
  have present: "storedBundle warmCluster ''cdn-a'' \<noteq> None"
    by (simp add: storedBundle_def warmCluster_def CDNDNSSECKeyType_def)
  have absent: "storedBundle emptyCluster ''cdn-a'' = None"
    by (simp add: storedBundle_def emptyCluster_def)
  from delete_is_idempotent [OF h1 h2 h3 h4 h5 h6 w]
       delete_is_idempotent [OF h1 h2 h3 h4 h5 h6 c]
       h1 h4 w present absent
  show ?thesis by simp
qed

section \<open>Single-row reads: a missing row is not an error\<close>

text \<open>
  C9. Each of the five single-row read helpers answers a query that matches no row with
  found = false and a nil error, and returns a non-nil error exactly when the query failed
  with an error other than the no-rows sentinel.
\<close>

theorem missing_row_is_not_an_error:
  "(select_parameter_value tx name configFile = ErrNoRows \<longrightarrow>
      GetParam tx name configFile = ('''', False, None)) \<and>
   (select_ds_xml_id tx i = ErrNoRows \<longrightarrow> GetDSNameFromID tx i = ('''', False, None)) \<and>
   (select_ds_xml_id_cdn_name tx i = ErrNoRows \<longrightarrow>
      GetDSNameAndCDNFromID tx i = ('''', '''', False, None)) \<and>
   (select_profile_name tx i = ErrNoRows \<longrightarrow> GetProfileNameFromID i tx = ('''', False, None)) \<and>
   (select_profile_id tx name = ErrNoRows \<longrightarrow> GetProfileIDFromName name tx = (0, False, None)) \<and>
   ((snd (snd (GetParam tx name configFile)) \<noteq> None) =
      (\<exists>m. select_parameter_value tx name configFile = OtherError m)) \<and>
   ((snd (snd (GetDSNameFromID tx i)) \<noteq> None) = (\<exists>m. select_ds_xml_id tx i = OtherError m)) \<and>
   ((snd (snd (snd (GetDSNameAndCDNFromID tx i))) \<noteq> None) =
      (\<exists>m. select_ds_xml_id_cdn_name tx i = OtherError m)) \<and>
   ((snd (snd (GetProfileNameFromID i tx)) \<noteq> None) =
      (\<exists>m. select_profile_name tx i = OtherError m)) \<and>
   ((snd (snd (GetProfileIDFromName name tx)) \<noteq> None) =
      (\<exists>m. select_profile_id tx name = OtherError m))"
  by (simp add: GetParam_def GetDSNameFromID_def GetDSNameAndCDNFromID_def
      GetProfileNameFromID_def GetProfileIDFromName_def split: QueryRowScan.split)

theorem missing_row_is_not_an_error_witness:
  "select_parameter_value exampleTx ''tm.url'' ''global'' = ErrNoRows \<and>
   GetParam exampleTx ''tm.url'' ''global'' = ('''', False, None) \<and>
   select_ds_xml_id exampleTx 2 = ErrNoRows \<and>
   GetDSNameFromID exampleTx 2 = ('''', False, None) \<and>
   GetDSNameAndCDNFromID exampleTx 2 = ('''', '''', False, None) \<and>
   select_profile_id exampleTx ''tm.url'' = ErrNoRows \<and>
   GetProfileIDFromName ''tm.url'' exampleTx = (0, False, None) \<and>
   select_profile_name exampleTx 2 = OtherError ''connection lost'' \<and>
   snd (snd (GetProfileNameFromID 2 exampleTx)) \<noteq> None \<and>
   snd (snd (GetParam exampleTx ''tm.url'' ''global'')) = None"
  using missing_row_is_not_an_error [of exampleTx "''tm.url''" "''global''" 2]
  by (simp add: exampleTx_def)

section \<open>Demotion leaves the head in place\<close>

text \<open>
  C10. Demotion works on a copy: for an old bundle with a key set under the CDN name, the
  KSK list the rotation builds starts with the prior KSK list unchanged, so its record at
  index 0 is the prior head field for field; the one record added stands behind them, has
  status \<open>existing\<close> and differs from the prior head in status, TTL and expiration only.
  The same holds for the ZSK list.
\<close>

theorem demotion_leaves_head_untouched:
  assumes "oldKeys cdnName = Some oldKeyCDN"
  shows "(KSK oldKeyCDN \<noteq> [] \<longrightarrow>
            KSK (cdnKeySet oldKeys cdnName ttl effectiveDateUnix) ! 0 = KSK oldKeyCDN ! 0 \<and>
            take (length (KSK oldKeyCDN)) (KSK (cdnKeySet oldKeys cdnName ttl effectiveDateUnix))
              = KSK oldKeyCDN \<and>
            length (KSK (cdnKeySet oldKeys cdnName ttl effectiveDateUnix))
              = Suc (length (KSK oldKeyCDN)) \<and>
            Status (KSK (cdnKeySet oldKeys cdnName ttl effectiveDateUnix) ! length (KSK oldKeyCDN))
              = ''existing'' \<and>
            (\<exists>t x. KSK (cdnKeySet oldKeys cdnName ttl effectiveDateUnix) ! length (KSK oldKeyCDN)
                     = (KSK oldKeyCDN ! 0)\<lparr>Status := ''existing'', TTLSeconds := t,
                                            ExpirationDateUnix := x\<rparr>)) \<and>
         (ZSK oldKeyCDN \<noteq> [] \<longrightarrow>
            ZSK (cdnKeySet oldKeys cdnName ttl effectiveDateUnix) ! 0 = ZSK oldKeyCDN ! 0 \<and>
            take (length (ZSK oldKeyCDN)) (ZSK (cdnKeySet oldKeys cdnName ttl effectiveDateUnix))
              = ZSK oldKeyCDN \<and>
            length (ZSK (cdnKeySet oldKeys cdnName ttl effectiveDateUnix))
              = Suc (length (ZSK oldKeyCDN)) \<and>
            Status (ZSK (cdnKeySet oldKeys cdnName ttl effectiveDateUnix) ! length (ZSK oldKeyCDN))
              = ''existing'' \<and>
            (\<exists>t x. ZSK (cdnKeySet oldKeys cdnName ttl effectiveDateUnix) ! length (ZSK oldKeyCDN)
                     = (ZSK oldKeyCDN ! 0)\<lparr>Status := ''existing'', TTLSeconds := t,
                                            ExpirationDateUnix := x\<rparr>))"
  using assms
  by (auto simp: cdnKeySet_def demoted_def DNSSECStatusExisting_def nth_append)

theorem demotion_leaves_head_untouched_witness:
  "warmBundle ''cdn-a'' = Some \<lparr>ZSK = [mkKey ''cdn-a'' ''new''], KSK = [mkKey ''cdn-a'' ''new'']\<rparr> \<and>
   KSK (cdnKeySet warmBundle ''cdn-a'' (3600 * Second) 1500) ! 0 = mkKey ''cdn-a'' ''new'' \<and>
   Status (KSK (cdnKeySet warmBundle ''cdn-a'' (3600 * Second) 1500) ! 0) = ''new'' \<and>
   Status (KSK (cdnKeySet warmBundle ''cdn-a'' (3600 * Second) 1500) ! 1) = ''existing'' \<and>
   ZSK (cdnKeySet warmBundle ''cdn-a'' (3600 * Second) 1500) ! 0 = mkKey ''cdn-a'' ''new'' \<and>
   Status (ZSK (cdnKeySet warmBundle ''cdn-a'' (3600 * Second) 1500) ! 1) = ''existing''"
proof -
  have h1: "warmBundle ''cdn-a'' =
      Some \<lparr>ZSK = [mkKey ''cdn-a'' ''new''], KSK = [mkKey ''cdn-a'' ''new'']\<rparr>"
    by (simp add: warmBundle_def)
  from demotion_leaves_head_untouched
         [where oldKeys = warmBundle and cdnName = "''cdn-a''" and ttl = "3600 * Second"
            and effectiveDateUnix = 1500, OF h1]
       h1
  show ?thesis
    by (simp add: mkKey_def)
qed

end
